theory Spec2Isabelle
  imports Complex_Main
begin

section \<open>The JavaScript Date operations used by the two screens\<close>

text \<open>
  Both screens compute with JavaScript \<^verbatim>\<open>Date\<close> objects. A valid \<^verbatim>\<open>Date\<close> is its time
  value: the number of milliseconds since 1970-01-01T00:00:00Z, an integer. The
  operations below follow the definitions of the ECMAScript standard (Day, TimeWithinDay,
  DaysInYear, DayFromYear, YearFromTime, InLeapYear, MonthFromTime, DateFromTime, WeekDay,
  LocalTime, UTC, MakeTime, MakeDay, MakeDate), under the names the standard gives them.

  The device's time zone is an argument \<open>z\<close> of everything that reads local time: the
  offset in force at a time value, and the offset by which a local time is read, so that
  the offset may change inside a week (daylight saving). The range limit of time values
  (100,000,000 days either side of the epoch, where \<^verbatim>\<open>TimeClip\<close> makes a \<^verbatim>\<open>Date\<close>
  invalid) is not modelled: the time value is an unbounded integer, and every \<^verbatim>\<open>Date\<close>
  is a valid one.
\<close>

type_synonym Date = int

definition msPerDay :: int where
  "msPerDay = 86400000"

definition Day :: "int \<Rightarrow> int" where
  "Day t = t div msPerDay"

definition TimeWithinDay :: "int \<Rightarrow> int" where
  "TimeWithinDay t = t mod msPerDay"

definition DaysInYear :: "int \<Rightarrow> int" where
  "DaysInYear y =
     (if y mod 4 \<noteq> 0 then 365
      else if y mod 100 \<noteq> 0 then 366
      else if y mod 400 \<noteq> 0 then 365
      else 366)"

definition DayFromYear :: "int \<Rightarrow> int" where
  "DayFromYear y =
     365 * (y - 1970) + (y - 1969) div 4 - (y - 1901) div 100 + (y - 1601) div 400"

lemma mod_sub_mult: "(y - n * k) mod n = (y::int) mod n"
  by (metis mod_diff_right_eq mod_mult_self1_is_0 diff_zero)

lemma mod_100_imp_4: "(y::int) mod 100 = 0 \<Longrightarrow> y mod 4 = 0"
proof -
  assume "y mod 100 = 0"
  then have "100 dvd y" by (simp add: dvd_eq_mod_eq_0)
  moreover have "(4::int) dvd 100" by simp
  ultimately have "4 dvd y" by (rule dvd_trans [rotated])
  then show ?thesis by (simp add: dvd_eq_mod_eq_0)
qed

lemma mod_400_imp_100: "(y::int) mod 400 = 0 \<Longrightarrow> y mod 100 = 0"
proof -
  assume "y mod 400 = 0"
  then have "400 dvd y" by (simp add: dvd_eq_mod_eq_0)
  moreover have "(100::int) dvd 400" by simp
  ultimately have "100 dvd y" by (rule dvd_trans [rotated])
  then show ?thesis by (simp add: dvd_eq_mod_eq_0)
qed

lemma div_step:
  fixes a n :: int
  assumes "0 < n"
  shows "(a + 1) div n = a div n + (if (a + 1) mod n = 0 then 1 else 0)"
proof (cases "a mod n = n - 1")
  case True
  have h: "a - a mod n = n * (a div n)" by (rule minus_mod_eq_mult_div)
  have "(a div n + 1) * n + 0 = n * (a div n) + n" by (simp add: algebra_simps)
  also have "\<dots> = a - a mod n + n" using h by simp
  also have "\<dots> = a + 1" using True by simp
  finally have "a + 1 = (a div n + 1) * n + 0" by simp
  then have "(a + 1) div n = a div n + 1" "(a + 1) mod n = 0"
    using assms
    by (metis div_mult_self2 add.commute div_0 add.right_neutral less_irrefl
          div_mult_self3 add.left_neutral,
        metis mod_mult_self3 mod_0 add.commute add.right_neutral)
  then show ?thesis by simp
next
  case False
  have b: "0 \<le> a mod n" "a mod n < n" using assms by simp_all
  with False have r: "0 \<le> a mod n + 1" "a mod n + 1 < n" by simp_all
  have h: "a - a mod n = n * (a div n)" by (rule minus_mod_eq_mult_div)
  have "(a div n) * n + (a mod n + 1) = n * (a div n) + (a mod n + 1)" by simp
  also have "\<dots> = a - a mod n + (a mod n + 1)" using h by simp
  finally have e: "a + 1 = (a div n) * n + (a mod n + 1)" by simp
  have "(a + 1) div n = a div n + (a mod n + 1) div n"
    unfolding e [symmetric] using e assms by (metis div_mult_self3 less_irrefl)
  moreover have "(a + 1) mod n = (a mod n + 1) mod n"
    using e by (metis mod_mult_self3)
  ultimately show ?thesis
    using r b by (simp add: div_pos_pos_trivial mod_pos_pos_trivial)
qed

lemma DayFromYear_next: "DayFromYear (y + 1) = DayFromYear y + DaysInYear y"
proof -
  have a: "(y + 1 - 1969) div 4 = (y - 1969) div 4 + (if y mod 4 = 0 then 1 else 0)"
    using div_step [of 4 "y - 1969"] mod_sub_mult [of y 4 492]
    by (simp add: algebra_simps)
  have b: "(y + 1 - 1901) div 100 = (y - 1901) div 100 + (if y mod 100 = 0 then 1 else 0)"
    using div_step [of 100 "y - 1901"] mod_sub_mult [of y 100 19]
    by (simp add: algebra_simps)
  have c: "(y + 1 - 1601) div 400 = (y - 1601) div 400 + (if y mod 400 = 0 then 1 else 0)"
    using div_step [of 400 "y - 1601"] mod_sub_mult [of y 400 4]
    by (simp add: algebra_simps)
  show ?thesis
    unfolding DayFromYear_def DaysInYear_def a b c
    using mod_100_imp_4 [of y] mod_400_imp_100 [of y] by auto
qed

lemma DaysInYear_bounds: "365 \<le> DaysInYear y" "DaysInYear y \<le> 366"
  by (simp_all add: DaysInYear_def)

lemma DayFromYear_prev: "DayFromYear (y - 1) = DayFromYear y - DaysInYear (y - 1)"
  using DayFromYear_next [of "y - 1"] by simp

text \<open>
  \<^verbatim>\<open>YearFromTime(t)\<close> is, in the standard, the largest year \<open>y\<close> whose first day is
  not after \<open>t\<close>. It is computed here from an estimate of the year by stepping down while
  the year starts after the day, then up while the next year has already begun; lemmas
  \<open>YearFromTime_bounds\<close> and \<open>YearFromTime_unique\<close> show that the result is that year.
\<close>

function yearDown :: "int \<Rightarrow> int \<Rightarrow> int" where
  "yearDown d y = (if d < DayFromYear y then yearDown d (y - 1) else y)"
  by pat_completeness auto
termination
proof (relation "measure (\<lambda>(d, y). nat (DayFromYear y - d))")
  show "wf (measure (\<lambda>(d, y). nat (DayFromYear y - d)))" by simp
next
  fix d y :: int
  assume "d < DayFromYear y"
  then show "((d, y - 1), (d, y)) \<in> measure (\<lambda>(d, y). nat (DayFromYear y - d))"
    using DayFromYear_prev [of y] DaysInYear_bounds(1) [of "y - 1"] by simp
qed

function yearUp :: "int \<Rightarrow> int \<Rightarrow> int" where
  "yearUp d y = (if DayFromYear (y + 1) \<le> d then yearUp d (y + 1) else y)"
  by pat_completeness auto
termination
proof (relation "measure (\<lambda>(d, y). nat (d + 1 - DayFromYear (y + 1)))")
  show "wf (measure (\<lambda>(d, y). nat (d + 1 - DayFromYear (y + 1))))" by simp
next
  fix d y :: int
  assume "DayFromYear (y + 1) \<le> d"
  then show "((d, y + 1), (d, y)) \<in> measure (\<lambda>(d, y). nat (d + 1 - DayFromYear (y + 1)))"
    using DayFromYear_next [of "y + 1"] DaysInYear_bounds(1) [of "y + 1"] by simp
qed

definition YearFromTime :: "int \<Rightarrow> int" where
  "YearFromTime t = (let d = Day t in yearUp d (yearDown d (1970 + d div 365)))"

definition InLeapYear :: "int \<Rightarrow> int" where
  "InLeapYear t = (if DaysInYear (YearFromTime t) = 366 then 1 else 0)"

definition DayWithinYear :: "int \<Rightarrow> int" where
  "DayWithinYear t = Day t - DayFromYear (YearFromTime t)"

definition MonthFromTime :: "int \<Rightarrow> int" where
  "MonthFromTime t =
     (let d = DayWithinYear t; l = InLeapYear t in
      if d < 31 then 0
      else if d < 59 + l then 1
      else if d < 90 + l then 2
      else if d < 120 + l then 3
      else if d < 151 + l then 4
      else if d < 181 + l then 5
      else if d < 212 + l then 6
      else if d < 243 + l then 7
      else if d < 273 + l then 8
      else if d < 304 + l then 9
      else if d < 334 + l then 10
      else 11)"

definition DateFromTime :: "int \<Rightarrow> int" where
  "DateFromTime t =
     (let d = DayWithinYear t; l = InLeapYear t; m = MonthFromTime t in
      if m = 0 then d + 1
      else if m = 1 then d - 30
      else if m = 2 then d - 58 - l
      else if m = 3 then d - 89 - l
      else if m = 4 then d - 119 - l
      else if m = 5 then d - 150 - l
      else if m = 6 then d - 180 - l
      else if m = 7 then d - 211 - l
      else if m = 8 then d - 242 - l
      else if m = 9 then d - 272 - l
      else if m = 10 then d - 303 - l
      else d - 333 - l)"

definition WeekDay :: "int \<Rightarrow> int" where
  "WeekDay t = (Day t + 4) mod 7"

text \<open>
  The time zone, as the standard's \<^verbatim>\<open>LocalTZA(t, isUTC)\<close>: \<open>offsetAt z t\<close> is the offset
  (local minus UTC, in milliseconds) in force at the time value \<open>t\<close>, and
  \<open>offsetFor z t\<close> is the offset by which the local time \<open>t\<close> is read. They are
  arguments, as the zone is the device's.
\<close>

record zone =
  offsetAt :: "int \<Rightarrow> int"
  offsetFor :: "int \<Rightarrow> int"

definition LocalTime :: "zone \<Rightarrow> int \<Rightarrow> int" where
  "LocalTime z t = t + offsetAt z t"

definition UTC :: "zone \<Rightarrow> int \<Rightarrow> int" where
  "UTC z t = t - offsetFor z t"

text \<open>A zone whose offset never changes.\<close>

definition fixedZone :: "int \<Rightarrow> zone" where
  "fixedZone tz = \<lparr>offsetAt = (\<lambda>t. tz), offsetFor = (\<lambda>t. tz)\<rparr>"




definition MakeTime :: "int \<Rightarrow> int \<Rightarrow> int \<Rightarrow> int \<Rightarrow> int" where
  "MakeTime hour minute sec ms = hour * 3600000 + minute * 60000 + sec * 1000 + ms"

text \<open>
  \<^verbatim>\<open>MakeDay(year, month, date)\<close>: the day number of the first day of the month
  (months counted from 0, carried into the year when outside 0..11), plus \<open>date - 1\<close>.
  The date may be any integer: that is how \<^verbatim>\<open>setDate\<close> crosses month and year ends.
\<close>

definition monthStart :: "int \<Rightarrow> int \<Rightarrow> int" where
  "monthStart m l =
     (if m = 0 then 0
      else if m = 1 then 31
      else if m = 2 then 59 + l
      else if m = 3 then 90 + l
      else if m = 4 then 120 + l
      else if m = 5 then 151 + l
      else if m = 6 then 181 + l
      else if m = 7 then 212 + l
      else if m = 8 then 243 + l
      else if m = 9 then 273 + l
      else if m = 10 then 304 + l
      else 334 + l)"

definition MakeDay :: "int \<Rightarrow> int \<Rightarrow> int \<Rightarrow> int" where
  "MakeDay year month date =
     (let ym = year + month div 12; mn = month mod 12;
          l = (if DaysInYear ym = 366 then 1 else 0)
      in DayFromYear ym + monthStart mn l + date - 1)"

definition MakeDate :: "int \<Rightarrow> int \<Rightarrow> int" where
  "MakeDate day time = day * msPerDay + time"

text \<open>The methods of \<^verbatim>\<open>Date\<close> the screens call; \<^verbatim>\<open>getDay\<close>, \<^verbatim>\<open>getDate\<close> and
  \<^verbatim>\<open>setDate\<close> work in local time. \<^verbatim>\<open>setDate\<close> ends with \<^verbatim>\<open>TimeClip\<close>, which changes
  nothing inside the range of valid dates and is left out with the range limit.\<close>

definition getDay :: "zone \<Rightarrow> Date \<Rightarrow> int" where
  "getDay z d = WeekDay (LocalTime z d)"

definition getDate :: "zone \<Rightarrow> Date \<Rightarrow> int" where
  "getDate z d = DateFromTime (LocalTime z d)"

definition setDate :: "zone \<Rightarrow> Date \<Rightarrow> int \<Rightarrow> Date" where
  "setDate z d dt =
     (let t = LocalTime z d
      in UTC z (MakeDate (MakeDay (YearFromTime t) (MonthFromTime t) dt) (TimeWithinDay t)))"

text \<open>
  The text \<^verbatim>\<open>YYYY-MM-DD\<close> of a calendar date is modelled by its three numbers (the
  month counted from 1, as in the text): two such texts are equal exactly when the numbers
  are. \<^verbatim>\<open>date.toISOString().split('T')[0]\<close> is the calendar date of the time value in
  UTC, whatever the device's time zone.
\<close>

record iso_date =
  iso_year :: int
  iso_month :: int
  iso_day :: int

definition toISODate :: "Date \<Rightarrow> iso_date" where
  "toISODate d =
     \<lparr>iso_year = YearFromTime d, iso_month = MonthFromTime d + 1, iso_day = DateFromTime d\<rparr>"

text \<open>A clock time is the text \<^verbatim>\<open>HH:MM:SS\<close> of a session's \<^verbatim>\<open>scheduled_time\<close>.\<close>

record clock =
  hours :: nat
  minutes :: nat
  seconds :: nat

definition midnight :: clock where
  "midnight = \<lparr>hours = 0, minutes = 0, seconds = 0\<rparr>"

definition valid_clock :: "clock \<Rightarrow> bool" where
  "valid_clock c =
     (hours c < 24 \<and> minutes c < 60 \<and> seconds c < 60
      \<or> hours c = 24 \<and> minutes c = 0 \<and> seconds c = 0)"

text \<open>
  \<^verbatim>\<open>new Date(`${dateString}T${time}`)\<close>: a date-time text without an offset is read as
  local time. A time outside the clock's range gives an Invalid Date (\<open>None\<close>), and every
  comparison with an Invalid Date is false. \<^verbatim>\<open>new Date(dateString)\<close>, a date alone, is
  read as midnight UTC. The date texts parsed here are well-formed calendar dates.
\<close>

definition parseLocalDateTime :: "zone \<Rightarrow> iso_date \<Rightarrow> clock \<Rightarrow> Date option" where
  "parseLocalDateTime z ds c =
     (if valid_clock c
      then Some (UTC z (MakeDate (MakeDay (iso_year ds) (iso_month ds - 1) (iso_day ds))
                   (MakeTime (int (hours c)) (int (minutes c)) (int (seconds c)) 0)))
      else None)"

definition parseDateOnly :: "iso_date \<Rightarrow> Date" where
  "parseDateOnly ds = MakeDate (MakeDay (iso_year ds) (iso_month ds - 1) (iso_day ds)) 0"

definition date_before :: "Date option \<Rightarrow> Date \<Rightarrow> bool" where
  "date_before d now = (case d of None \<Rightarrow> False | Some t \<Rightarrow> t < now)"

section \<open>Session records and day entries\<close>

text \<open>
  A row of the training sessions table, with the fields the two screens read. The
  declarations of \<^verbatim>\<open>TrainingSession\<close> are not part of the sources at hand; the fields
  are taken from their uses. A field that may be null, undefined or missing is an option.
\<close>

datatype session_status = S_scheduled | S_completed | S_no_show | S_cancelled

record TemplateRef =
  id_t :: string
  name_t :: string

record TrainingSession =
  id_s :: string
  scheduled_date :: "iso_date option"
  scheduled_time :: "clock option"
  status_s :: session_status
  template_s :: "TemplateRef option"
  duration_minutes_s :: "int option"
  notes_s :: "string option"
  template_id :: "string option"
  session_type :: "string option"
  type_s :: "string option"

datatype day_status = D_completed | D_missed | D_scheduled | D_rest | D_cancelled

text \<open>
  \<^verbatim>\<open>WeeklyWorkout\<close> of the coaching dashboard, and the training calendar's interface of
  the same name, which has three more fields.
\<close>

record WeeklyWorkout =
  dayName :: "string option"
  dayNumber :: int
  template :: "TemplateRef option"
  completed :: bool
  missed :: bool
  sessionId :: "string option"
  scheduledTime :: "clock option"

record CalendarWorkout = WeeklyWorkout +
  status :: day_status
  duration_minutes :: "int option"
  notes_w :: "string option"

record WeeklyStats =
  totalWorkouts :: nat
  completedWorkouts :: nat
  totalDuration :: int
  completionRate :: real

text \<open>Reading an array at an index: \<^verbatim>\<open>undefined\<close> (here \<open>None\<close>) out of range.\<close>

definition array_at :: "'a list \<Rightarrow> nat \<Rightarrow> 'a option" where
  "array_at xs i = (if i < length xs then Some (xs ! i) else None)"

text \<open>A string on the left of \<^verbatim>\<open>||\<close>: absent and empty are both falsy.\<close>

definition or_default :: "string option \<Rightarrow> string \<Rightarrow> string" where
  "or_default a b = (case a of None \<Rightarrow> b | Some x \<Rightarrow> if x = [] then b else x)"

definition dayNames :: "string list" where
  "dayNames = [''M'', ''T'', ''W'', ''T'', ''F'', ''S'', ''S'']"

section \<open>The training calendar screen\<close>

text \<open>\<^verbatim>\<open>getWeekDates\<close> (training-calendar.tsx).\<close>

definition getWeekDates :: "zone \<Rightarrow> Date \<Rightarrow> Date list" where
  "getWeekDates z startDate =
     (let dayOfWeek = getDay z startDate;
          diff = (if dayOfWeek = 0 then - 6 else 1 - dayOfWeek);
          monday = setDate z startDate (getDate z startDate + diff)
      in map (\<lambda>i. setDate z monday (getDate z monday + int i)) [0..<7])"

text \<open>
  The body of the \<^verbatim>\<open>weekDates.forEach\<close> loop of \<^verbatim>\<open>loadWeeklySchedule\<close>: the day entry
  for one date of the week. The source reads the clock (\<^verbatim>\<open>new Date()\<close>) in each round of
  the loop; here the moment of evaluation is the argument \<open>now\<close>.
\<close>

definition workoutSessionData ::
  "zone \<Rightarrow> TrainingSession list \<Rightarrow> Date \<Rightarrow> nat \<Rightarrow> Date \<Rightarrow> CalendarWorkout" where
  "workoutSessionData z trainingSessions now index date =
     (let dateString = toISODate date;
          dayNumber' = getDate z date;
          session = find (\<lambda>s. scheduled_date s = Some dateString) trainingSessions;
          sessionDateTime = parseLocalDateTime z dateString
            (case Option.bind session scheduled_time of None \<Rightarrow> midnight | Some c \<Rightarrow> c)
      in \<lparr>dayName = array_at dayNames index,
          dayNumber = dayNumber',
          template = (case Option.bind session template_s of
                        None \<Rightarrow> None
                      | Some t \<Rightarrow> Some \<lparr>id_t = id_t t, name_t = name_t t\<rparr>),
          completed = (case session of None \<Rightarrow> False | Some s \<Rightarrow> status_s s = S_completed),
          missed = False,
          sessionId = map_option id_s session,
          scheduledTime = Option.bind session scheduled_time,
          status = (case session of
                      None \<Rightarrow> D_rest
                    | Some s \<Rightarrow>
                        (case status_s s of
                           S_scheduled \<Rightarrow>
                             if date_before sessionDateTime now then D_missed else D_scheduled
                         | S_no_show \<Rightarrow> D_missed
                         | S_completed \<Rightarrow> D_completed
                         | S_cancelled \<Rightarrow> D_cancelled)),
          duration_minutes = Option.bind session duration_minutes_s,
          notes_w = Option.bind session notes_s\<rparr>)"

definition weeklyScheduleOf ::
  "zone \<Rightarrow> Date list \<Rightarrow> TrainingSession list \<Rightarrow> Date \<Rightarrow> CalendarWorkout list" where
  "weeklyScheduleOf z weekDates trainingSessions now =
     map (\<lambda>(index, date). workoutSessionData z trainingSessions now index date)
       (enumerate 0 weekDates)"

text \<open>\<^verbatim>\<open>calculateWeeklyStats\<close>. JavaScript numbers are modelled exactly: the counts are
  naturals, the minutes integers, and the completion rate a real number, so the rounding of
  floating-point division is outside the model.\<close>

definition calculateWeeklyStats :: "CalendarWorkout list \<Rightarrow> WeeklyStats" where
  "calculateWeeklyStats workouts =
     (let totalWorkouts' = length (filter (\<lambda>w. template w \<noteq> None \<or> status w \<noteq> D_rest) workouts);
          completedWorkouts' = length (filter (\<lambda>w. status w = D_completed) workouts);
          totalDuration' =
            foldl (\<lambda>sum w. sum + (case duration_minutes w of None \<Rightarrow> 0 | Some n \<Rightarrow> n)) 0
              (filter (\<lambda>w. status w = D_completed) workouts);
          completionRate' =
            (if totalWorkouts' > 0
             then (real completedWorkouts' / real totalWorkouts') * 100 else 0)
      in \<lparr>totalWorkouts = totalWorkouts',
          completedWorkouts = completedWorkouts',
          totalDuration = totalDuration',
          completionRate = completionRate'\<rparr>)"

text \<open>
  \<^verbatim>\<open>loadWeeklySchedule\<close>, after the session records of the week have been fetched: the
  schedule it stores with \<^verbatim>\<open>setWeeklyWorkouts\<close> and the statistics it stores with
  \<^verbatim>\<open>setWeeklyStats\<close>. The fetch itself, the guard on the user profile and the alert of
  the \<^verbatim>\<open>catch\<close> block are not part of the derivation; they follow below.
\<close>

definition loadWeeklySchedule ::
  "zone \<Rightarrow> Date \<Rightarrow> TrainingSession list \<Rightarrow> Date \<Rightarrow> CalendarWorkout list \<times> WeeklyStats" where
  "loadWeeklySchedule z currentWeekStart trainingSessions now =
     (let weekDates = getWeekDates z currentWeekStart;
          weeklySchedule = weeklyScheduleOf z weekDates trainingSessions now
      in (weeklySchedule, calculateWeeklyStats weeklySchedule))"





section \<open>The coaching dashboard\<close>

text \<open>
  The body of the \<^verbatim>\<open>weekDates.map\<close> callback of \<^verbatim>\<open>loadWeeklyWorkouts\<close> (the source file
  whose name is unknown, part 000): the day entry for one date of the week. The chain of
  \<^verbatim>\<open>if\<close> and \<^verbatim>\<open>else if\<close> that sets \<^verbatim>\<open>completed\<close> and \<^verbatim>\<open>missed\<close> is kept as it is.
  The moment of evaluation is the argument \<open>now\<close>, as for the calendar.
\<close>

definition weeklyDataEntry ::
  "zone \<Rightarrow> TemplateRef list \<Rightarrow> TrainingSession list \<Rightarrow> Date \<Rightarrow> nat \<Rightarrow> Date \<Rightarrow> WeeklyWorkout" where
  "weeklyDataEntry z workoutTemplates trainingSessions now index date =
     (let dateString = toISODate date;
          dayNumber' = getDate z date;
          session = find (\<lambda>s.
              (case scheduled_date s of
                 None \<Rightarrow> False
               | Some sd \<Rightarrow> toISODate (parseDateOnly sd) = dateString)) trainingSessions
      in case session of
           None \<Rightarrow>
             \<lparr>dayName = array_at dayNames index, dayNumber = dayNumber', template = None,
              completed = False, missed = False, sessionId = None, scheduledTime = None\<rparr>
         | Some s \<Rightarrow>
             (let customTemplate =
                    \<lparr>id_t = id_s s,
                     name_t = or_default (session_type s)
                                (or_default (type_s s) ''Custom Session'')\<rparr>;
                  template' =
                    (case template_id s of
                       None \<Rightarrow> customTemplate
                     | Some tid \<Rightarrow>
                         if tid = [] then customTemplate
                         else (case find (\<lambda>t. id_t t = tid) workoutTemplates of
                                 Some templateData \<Rightarrow>
                                   \<lparr>id_t = id_t templateData, name_t = name_t templateData\<rparr>
                               | None \<Rightarrow> \<lparr>id_t = tid, name_t = ''Workout''\<rparr>));
                  sessionDate = parseDateOnly dateString
              in \<lparr>dayName = array_at dayNames index, dayNumber = dayNumber',
                  template = Some template',
                  completed = (status_s s = S_completed),
                  missed =
                    (if status_s s = S_completed then False
                     else if status_s s = S_no_show \<or> status_s s = S_cancelled then True
                     else sessionDate < now \<and> status_s s = S_scheduled),
                  sessionId = Some (id_s s),
                  scheduledTime = scheduled_time s\<rparr>))"

definition loadWeeklyWorkouts ::
  "zone \<Rightarrow> Date \<Rightarrow> TemplateRef list \<Rightarrow> TrainingSession list \<Rightarrow> Date \<Rightarrow> WeeklyWorkout list" where
  "loadWeeklyWorkouts z today workoutTemplates trainingSessions now =
     (let currentDay = getDay z today;
          mondayOffset = (if currentDay = 0 then - 6 else 1 - currentDay);
          monday = setDate z today (getDate z today + mondayOffset);
          weekDates = map (\<lambda>i. setDate z monday (getDate z monday + int i)) [0..<7]
      in map (\<lambda>(index, date).
                weeklyDataEntry z workoutTemplates trainingSessions now index date)
           (enumerate 0 weekDates))"

section \<open>Calendar dates, for stating the properties\<close>

text \<open>
  The local calendar date of a \<^verbatim>\<open>Date\<close> (what \<^verbatim>\<open>getFullYear\<close>, \<^verbatim>\<open>getMonth\<close> and
  \<^verbatim>\<open>getDate\<close> show), and the day after a calendar date in the Gregorian calendar.
\<close>

definition localDate :: "zone \<Rightarrow> Date \<Rightarrow> iso_date" where
  "localDate z d = toISODate (LocalTime z d)"






section \<open>The contract of the specification\<close>

text \<open>
  The weekly statistics as the specification defines them: each a sum over the day
  entries of the week.
\<close>

definition spec_totalWorkouts :: "CalendarWorkout list \<Rightarrow> nat" where
  "spec_totalWorkouts ws =
     sum_list (map (\<lambda>w. if template w \<noteq> None \<or> status w \<noteq> D_rest then 1 else 0) ws)"

definition spec_completedWorkouts :: "CalendarWorkout list \<Rightarrow> nat" where
  "spec_completedWorkouts ws =
     sum_list (map (\<lambda>w. if status w = D_completed then 1 else 0) ws)"

definition spec_totalDuration :: "CalendarWorkout list \<Rightarrow> int" where
  "spec_totalDuration ws =
     sum_list (map (\<lambda>w. if status w = D_completed
                         then (case duration_minutes w of None \<Rightarrow> 0 | Some n \<Rightarrow> n)
                         else 0) ws)"

definition spec_completionRate :: "CalendarWorkout list \<Rightarrow> real" where
  "spec_completionRate ws =
     (if spec_totalWorkouts ws = 0 then 0
      else 100 * real (spec_completedWorkouts ws) / real (spec_totalWorkouts ws))"


text \<open>The entry of a day that no session matches.\<close>

definition restDay :: "nat \<Rightarrow> int \<Rightarrow> CalendarWorkout" where
  "restDay index n =
     \<lparr>dayName = array_at dayNames index, dayNumber = n, template = None, completed = False,
      missed = False, sessionId = None, scheduledTime = None, status = D_rest,
      duration_minutes = None, notes_w = None\<rparr>"

section \<open>Inputs of the examples\<close>

text \<open>
  The week of Monday 2023-01-30, each date at 10:00:00 UTC (1675245600000 is Wednesday
  2023-02-01T10:00:00Z); a session on that Wednesday at 18:00:00, without a template; a
  completed session on the same day with a template; a session on a given date; a day
  entry of a session completed in 45 minutes.
\<close>


definition exampleWeek :: "Date list" where
  "exampleWeek =
     [1675072800000, 1675159200000, 1675245600000, 1675332000000,
      1675418400000, 1675504800000, 1675591200000]"

definition exampleSession :: "session_status \<Rightarrow> TrainingSession" where
  "exampleSession st =
     \<lparr>id_s = ''s1'',
      scheduled_date = Some \<lparr>iso_year = 2023, iso_month = 2, iso_day = 1\<rparr>,
      scheduled_time = Some \<lparr>hours = 18, minutes = 0, seconds = 0\<rparr>,
      status_s = st, template_s = None, duration_minutes_s = None, notes_s = None,
      template_id = None, session_type = None, type_s = None\<rparr>"

definition templatedSession :: TrainingSession where
  "templatedSession =
     \<lparr>id_s = ''s2'',
      scheduled_date = Some \<lparr>iso_year = 2023, iso_month = 2, iso_day = 1\<rparr>,
      scheduled_time = None,
      status_s = S_completed,
      template_s = Some \<lparr>id_t = ''t1'', name_t = ''Leg Day''\<rparr>,
      duration_minutes_s = Some 45, notes_s = Some ''felt strong'',
      template_id = Some ''t1'', session_type = Some ''strength'', type_s = None\<rparr>"

definition sessionOn :: "iso_date \<Rightarrow> TrainingSession" where
  "sessionOn ds =
     \<lparr>id_s = ''s1'', scheduled_date = Some ds, scheduled_time = None,
      status_s = S_scheduled, template_s = None, duration_minutes_s = None, notes_s = None,
      template_id = None, session_type = None, type_s = None\<rparr>"

definition completedDay :: CalendarWorkout where
  "completedDay =
     \<lparr>dayName = Some ''W'', dayNumber = 3, template = None, completed = True,
      missed = False, sessionId = Some ''s1'', scheduledTime = None, status = D_completed,
      duration_minutes = Some 45, notes_w = None\<rparr>"




section \<open>Facts about the Date operations\<close>

lemma yearDown_le: "DayFromYear (yearDown d y) \<le> d"
proof (induction d y rule: yearDown.induct)
  case (1 d y)
  show ?case
  proof (cases "d < DayFromYear y")
    case True
    with "1" show ?thesis by (subst yearDown.simps) simp
  next
    case False
    then show ?thesis by (subst yearDown.simps) simp
  qed
qed

lemma yearUp_bounds:
  "DayFromYear y \<le> d \<Longrightarrow>
   DayFromYear (yearUp d y) \<le> d \<and> d < DayFromYear (yearUp d y + 1)"
proof (induction d y rule: yearUp.induct)
  case (1 d y)
  show ?case
  proof (cases "DayFromYear (y + 1) \<le> d")
    case True
    with "1" show ?thesis by (subst (1 2) yearUp.simps) simp
  next
    case False
    with "1.prems" show ?thesis by (subst (1 2) yearUp.simps) simp
  qed
qed

lemma YearFromTime_bounds:
  "DayFromYear (YearFromTime t) \<le> Day t" "Day t < DayFromYear (YearFromTime t + 1)"
  using yearUp_bounds [OF yearDown_le, of "Day t" "1970 + Day t div 365"]
  by (simp_all add: YearFromTime_def Let_def)

lemma DayWithinYear_bounds:
  "0 \<le> DayWithinYear t" "DayWithinYear t < 365 + InLeapYear t"
proof -
  show "0 \<le> DayWithinYear t"
    using YearFromTime_bounds(1) [of t] by (simp add: DayWithinYear_def)
  have "DaysInYear (YearFromTime t) = 365 + InLeapYear t"
    using DaysInYear_bounds [of "YearFromTime t"]
    by (simp add: InLeapYear_def DaysInYear_def)
  then show "DayWithinYear t < 365 + InLeapYear t"
    using YearFromTime_bounds(2) [of t] DayFromYear_next [of "YearFromTime t"]
    by (simp add: DayWithinYear_def)
qed

lemma InLeapYear_cases: "InLeapYear t = 0 \<or> InLeapYear t = 1"
  by (simp add: InLeapYear_def)

lemma MonthFromTime_range: "0 \<le> MonthFromTime t" "MonthFromTime t \<le> 11"
  by (simp_all add: MonthFromTime_def Let_def)

lemma DateFromTime_monthStart:
  "DateFromTime t = DayWithinYear t - monthStart (MonthFromTime t) (InLeapYear t) + 1"
  by (simp add: DateFromTime_def monthStart_def Let_def)

lemma MakeDay_of_time:
  "MakeDay (YearFromTime t) (MonthFromTime t) (DateFromTime t + k) = Day t + k"
proof -
  have m: "MonthFromTime t div 12 = 0" "MonthFromTime t mod 12 = MonthFromTime t"
    using MonthFromTime_range [of t] by simp_all
  show ?thesis
    unfolding MakeDay_def Let_def m DateFromTime_monthStart
    by (simp add: InLeapYear_def DayWithinYear_def)
qed

lemma MakeDate_Day_TimeWithinDay: "MakeDate (Day t + k) (TimeWithinDay t) = t + k * msPerDay"
  by (simp add: MakeDate_def Day_def TimeWithinDay_def algebra_simps)

lemma setDate_getDate:
  "setDate z d (getDate z d + k) = UTC z (LocalTime z d + k * msPerDay)"
  by (simp add: setDate_def getDate_def Let_def MakeDay_of_time MakeDate_Day_TimeWithinDay)

lemma LocalTime_fixedZone: "LocalTime (fixedZone tz) t = t + tz"
  by (simp add: LocalTime_def fixedZone_def)

lemma UTC_fixedZone: "UTC (fixedZone tz) t = t - tz"
  by (simp add: UTC_def fixedZone_def)

lemma setDate_getDate_fixedZone:
  "setDate (fixedZone tz) d (getDate (fixedZone tz) d + k) = d + k * msPerDay"
  by (simp add: setDate_getDate LocalTime_fixedZone UTC_fixedZone)

lemma DateFromTime_range: "1 \<le> DateFromTime t" "DateFromTime t \<le> 31"
  using DayWithinYear_bounds [of t] InLeapYear_cases [of t]
  by (auto simp add: DateFromTime_def MonthFromTime_def Let_def)

lemma Day_add_days: "Day (t + k * msPerDay) = Day t + k"
  by (simp add: Day_def msPerDay_def)

lemma TimeWithinDay_add_days: "TimeWithinDay (t + k * msPerDay) = TimeWithinDay t"
  by (simp add: TimeWithinDay_def msPerDay_def)

lemma getWeekDates_closed:
  "getWeekDates (fixedZone tz) startDate =
     map (\<lambda>i. startDate
            + ((if getDay (fixedZone tz) startDate = 0 then - 6
                else 1 - getDay (fixedZone tz) startDate) + int i)
              * msPerDay) [0..<7]"
  unfolding getWeekDates_def Let_def setDate_getDate_fixedZone by (simp add: algebra_simps)

lemma WeekDay_add_days: "WeekDay (t + k * msPerDay) = (WeekDay t + k) mod 7"
proof -
  have "(Day t + k + 4) mod 7 = ((Day t + 4) mod 7 + k) mod 7"
    by (metis mod_add_left_eq add.assoc add.commute)
  then show ?thesis unfolding WeekDay_def Day_add_days .
qed

lemma WeekDay_monday:
  "WeekDay (t + (if WeekDay t = 0 then - 6 else 1 - WeekDay t) * msPerDay) = 1"
  unfolding WeekDay_add_days by simp








lemma upt_7: "[0..<7] = [0, 1, 2, 3, 4, 5, 6]"
  by code_simp


lemma toISODate_Day_cong: "Day a = Day b \<Longrightarrow> toISODate a = toISODate b"
  by (simp add: toISODate_def YearFromTime_def DateFromTime_def MonthFromTime_def
        DayWithinYear_def InLeapYear_def Let_def)






lemma length_getWeekDates: "length (getWeekDates z startDate) = 7"
  by (simp add: getWeekDates_def Let_def)













lemma week_local_dates_utc:
  assumes "Day (LocalTime (fixedZone tz) reference) = Day reference"
  shows "map (localDate (fixedZone tz)) (getWeekDates (fixedZone tz) reference)
           = map toISODate (getWeekDates (fixedZone tz) reference)"
proof -
  have "localDate (fixedZone tz) (reference + k * msPerDay)
      = toISODate (reference + k * msPerDay)" for k
  proof -
    have "Day (LocalTime (fixedZone tz) (reference + k * msPerDay))
        = Day (reference + k * msPerDay)"
      using assms Day_add_days [of "reference + tz" k] Day_add_days [of reference k]
      by (simp add: LocalTime_fixedZone algebra_simps)
    then show ?thesis
      unfolding localDate_def by (rule toISODate_Day_cong)
  qed
  then show ?thesis
    unfolding getWeekDates_closed by simp
qed



lemma parseDateOnly_toISODate: "parseDateOnly (toISODate d) = Day d * msPerDay"
  using MakeDay_of_time [of d 0]
  by (simp add: parseDateOnly_def toISODate_def MakeDate_def)

section \<open>Facts about the statistics\<close>

lemma length_filter_sum: "length (filter P xs) = sum_list (map (\<lambda>x. if P x then 1 else 0) xs)"
  by (induction xs) simp_all

lemma foldl_add_sum: "foldl (\<lambda>sum w. sum + f w) a xs = a + sum_list (map f xs)" for a :: int
  by (induction xs arbitrary: a) simp_all

lemma sum_list_filter:
  "sum_list (map f (filter P xs)) = sum_list (map (\<lambda>x. if P x then f x else 0) xs)"
  for f :: "'a \<Rightarrow> int"
  by (induction xs) simp_all

lemma stats_all_rest:
  assumes "\<forall>w \<in> set ws. status w = D_rest \<and> template w = None"
  shows "calculateWeeklyStats ws =
     \<lparr>totalWorkouts = 0, completedWorkouts = 0, totalDuration = 0, completionRate = 0\<rparr>"
proof -
  have 1: "filter (\<lambda>w. template w \<noteq> None \<or> status w \<noteq> D_rest) ws = []"
    using assms by (simp add: filter_empty_conv)
  have 2: "filter (\<lambda>w. status w = D_completed) ws = []"
    using assms by (simp add: filter_empty_conv)
  show ?thesis
    unfolding calculateWeeklyStats_def Let_def 1 2 by simp
qed

lemma totalWorkouts_insert:
  "totalWorkouts (calculateWeeklyStats (before @ w # after)) =
     totalWorkouts (calculateWeeklyStats (before @ after))
     + (if template w \<noteq> None \<or> status w \<noteq> D_rest then 1 else 0)"
  by (simp add: calculateWeeklyStats_def Let_def)

section \<open>Facts about the day entries of the training calendar\<close>

lemma TemplateRef_copy: "\<lparr>id_t = id_t t, name_t = name_t t\<rparr> = t"
  by (cases t) simp

lemma template_copy:
  "(case x of None \<Rightarrow> None | Some t \<Rightarrow> Some \<lparr>id_t = id_t t, name_t = name_t t\<rparr>) = x"
  by (cases x) (simp_all add: TemplateRef_copy)

lemma workoutSessionData_unmatched:
  assumes "find (\<lambda>s. scheduled_date s = Some (toISODate date)) trainingSessions = None"
  shows "workoutSessionData z trainingSessions now index date = restDay index (getDate z date)"
  using assms by (simp add: workoutSessionData_def restDay_def Let_def)

lemma workoutSessionData_matched:
  assumes "find (\<lambda>s. scheduled_date s = Some (toISODate date)) trainingSessions = Some s"
  shows "workoutSessionData z trainingSessions now index date =
     \<lparr>dayName = array_at dayNames index,
      dayNumber = getDate z date,
      template = template_s s,
      completed = (status_s s = S_completed),
      missed = False,
      sessionId = Some (id_s s),
      scheduledTime = scheduled_time s,
      status = (case status_s s of
                  S_scheduled \<Rightarrow>
                    if date_before (parseLocalDateTime z (toISODate date)
                         (case scheduled_time s of None \<Rightarrow> midnight | Some c \<Rightarrow> c)) now
                    then D_missed else D_scheduled
                | S_no_show \<Rightarrow> D_missed
                | S_completed \<Rightarrow> D_completed
                | S_cancelled \<Rightarrow> D_cancelled),
      duration_minutes = duration_minutes_s s,
      notes_w = notes_s s\<rparr>"
  using assms by (simp add: workoutSessionData_def Let_def template_copy)

lemma find_matched_date:
  assumes "find (\<lambda>s. scheduled_date s = Some ds) trainingSessions = Some s"
  shows "scheduled_date s = Some ds" "s \<in> set trainingSessions"
  using assms by (auto simp add: find_Some_iff)

lemma length_weeklyScheduleOf:
  "length (weeklyScheduleOf z weekDates trainingSessions now) = length weekDates"
  by (simp add: weeklyScheduleOf_def)

lemma nth_weeklyScheduleOf:
  assumes "i < length weekDates"
  shows "weeklyScheduleOf z weekDates trainingSessions now ! i =
    workoutSessionData z trainingSessions now i (weekDates ! i)"
  using assms by (simp add: weeklyScheduleOf_def nth_enumerate_eq)

lemma weeklyScheduleOf_empty:
  "weeklyScheduleOf z weekDates [] now =
     map (\<lambda>(index, date). restDay index (getDate z date)) (enumerate 0 weekDates)"
  by (simp add: weeklyScheduleOf_def workoutSessionData_unmatched)

lemma map_const_replicate: "\<forall>x \<in> set xs. f x = c \<Longrightarrow> map f xs = replicate (length xs) c"
  by (induction xs) auto

lemma map_snd_enumerate: "map (\<lambda>p. f (snd p)) (enumerate n xs) = map f xs"
  by (induction xs arbitrary: n) simp_all

lemma map_fst_enumerate: "map (\<lambda>p. f (fst p)) (enumerate n xs) = map f [n..<n + length xs]"
  by (induction xs arbitrary: n) (simp_all add: upt_rec)

lemma workoutSessionData_fields:
  "dayName (workoutSessionData z trainingSessions now index date) = array_at dayNames index"
  "dayNumber (workoutSessionData z trainingSessions now index date) = getDate z date"
  "sessionId (workoutSessionData z trainingSessions now index date) =
     map_option id_s (find (\<lambda>s. scheduled_date s = Some (toISODate date)) trainingSessions)"
  by (simp_all add: workoutSessionData_def Let_def)

lemma weeklySchedule_shape:
  "length (fst (loadWeeklySchedule z currentWeekStart trainingSessions now)) = 7"
  "map dayNumber (fst (loadWeeklySchedule z currentWeekStart trainingSessions now))
     = map (getDate z) (getWeekDates z currentWeekStart)"
  "map dayName (fst (loadWeeklySchedule z currentWeekStart trainingSessions now))
     = map Some dayNames"
  "map sessionId (fst (loadWeeklySchedule z currentWeekStart trainingSessions now))
     = map (\<lambda>date. map_option id_s
              (find (\<lambda>s. scheduled_date s = Some (toISODate date)) trainingSessions))
         (getWeekDates z currentWeekStart)"
proof -
  show "length (fst (loadWeeklySchedule z currentWeekStart trainingSessions now)) = 7"
    by (simp add: loadWeeklySchedule_def Let_def length_weeklyScheduleOf length_getWeekDates)
  show "map dayNumber (fst (loadWeeklySchedule z currentWeekStart trainingSessions now))
     = map (getDate z) (getWeekDates z currentWeekStart)"
    by (simp add: loadWeeklySchedule_def Let_def weeklyScheduleOf_def comp_def
          case_prod_unfold workoutSessionData_fields map_snd_enumerate)
  show "map sessionId (fst (loadWeeklySchedule z currentWeekStart trainingSessions now))
     = map (\<lambda>date. map_option id_s
              (find (\<lambda>s. scheduled_date s = Some (toISODate date)) trainingSessions))
         (getWeekDates z currentWeekStart)"
    using map_snd_enumerate
      [of "\<lambda>date. map_option id_s
             (find (\<lambda>s. scheduled_date s = Some (toISODate date)) trainingSessions)"
          0 "getWeekDates z currentWeekStart"]
    by (simp add: loadWeeklySchedule_def Let_def weeklyScheduleOf_def comp_def
          case_prod_unfold workoutSessionData_fields)
  have "map dayName (weeklyScheduleOf z (getWeekDates z currentWeekStart) trainingSessions now)
      = map (\<lambda>i. array_at dayNames i) [0..<7]"
    by (simp add: weeklyScheduleOf_def comp_def case_prod_unfold workoutSessionData_fields
          map_fst_enumerate length_getWeekDates)
  also have "\<dots> = map Some dayNames"
    by (simp add: upt_7 array_at_def dayNames_def)
  finally show "map dayName (fst (loadWeeklySchedule z currentWeekStart trainingSessions now))
     = map Some dayNames"
    by (simp add: loadWeeklySchedule_def Let_def)
qed

lemma calendar_scheduled_status:
  assumes "find (\<lambda>s. scheduled_date s = Some (toISODate date)) trainingSessions = Some s"
    and "status_s s = S_scheduled"
  shows "scheduled_date s = Some (toISODate date)"
    and "status (workoutSessionData z trainingSessions now index date) =
      (if date_before
            (parseLocalDateTime z (toISODate date)
               (case scheduled_time s of None \<Rightarrow> midnight | Some c \<Rightarrow> c)) now
       then D_missed else D_scheduled)"
  using find_matched_date(1) [OF assms(1)] assms(2)
  by (simp_all add: workoutSessionData_matched [OF assms(1)])

lemma nth_loadWeeklySchedule:
  assumes "i < 7"
  shows "fst (loadWeeklySchedule z currentWeekStart trainingSessions now) ! i =
    workoutSessionData z trainingSessions now i (getWeekDates z currentWeekStart ! i)"
  using assms
  by (simp add: loadWeeklySchedule_def Let_def nth_weeklyScheduleOf length_getWeekDates)

section \<open>Facts about the day entries of the coaching dashboard\<close>

lemma weeklyDataEntry_unmatched:
  assumes "find (\<lambda>s. case scheduled_date s of None \<Rightarrow> False
                      | Some sd \<Rightarrow> toISODate (parseDateOnly sd) = toISODate date)
             trainingSessions = None"
  shows "weeklyDataEntry z workoutTemplates trainingSessions now index date =
     \<lparr>dayName = array_at dayNames index, dayNumber = getDate z date, template = None,
      completed = False, missed = False, sessionId = None, scheduledTime = None\<rparr>"
  using assms by (simp add: weeklyDataEntry_def Let_def)

lemma weeklyDataEntry_matched:
  assumes "find (\<lambda>s. case scheduled_date s of None \<Rightarrow> False
                      | Some sd \<Rightarrow> toISODate (parseDateOnly sd) = toISODate date)
             trainingSessions = Some s"
  shows "weeklyDataEntry z workoutTemplates trainingSessions now index date =
     \<lparr>dayName = array_at dayNames index, dayNumber = getDate z date,
      template = Some
        (case template_id s of
           None \<Rightarrow> \<lparr>id_t = id_s s,
                     name_t = or_default (session_type s)
                                (or_default (type_s s) ''Custom Session'')\<rparr>
         | Some tid \<Rightarrow>
             if tid = []
             then \<lparr>id_t = id_s s,
                   name_t = or_default (session_type s)
                              (or_default (type_s s) ''Custom Session'')\<rparr>
             else (case find (\<lambda>t. id_t t = tid) workoutTemplates of
                     Some templateData \<Rightarrow> templateData
                   | None \<Rightarrow> \<lparr>id_t = tid, name_t = ''Workout''\<rparr>)),
      completed = (status_s s = S_completed),
      missed = (if status_s s = S_completed then False
                else if status_s s = S_no_show \<or> status_s s = S_cancelled then True
                else parseDateOnly (toISODate date) < now \<and> status_s s = S_scheduled),
      sessionId = Some (id_s s),
      scheduledTime = scheduled_time s\<rparr>"
  using assms
  by (simp add: weeklyDataEntry_def Let_def TemplateRef_copy split: option.splits)

lemma loadWeeklyWorkouts_entries:
  "loadWeeklyWorkouts z today workoutTemplates trainingSessions now =
     map (\<lambda>(index, date). weeklyDataEntry z workoutTemplates trainingSessions now index date)
       (enumerate 0 (getWeekDates z today))"
  by (simp add: loadWeeklyWorkouts_def getWeekDates_def Let_def)

lemma length_loadWeeklyWorkouts:
  "length (loadWeeklyWorkouts z today workoutTemplates trainingSessions now) = 7"
  by (simp add: loadWeeklyWorkouts_entries length_getWeekDates)

lemma nth_loadWeeklyWorkouts:
  assumes "i < 7"
  shows "loadWeeklyWorkouts z today workoutTemplates trainingSessions now ! i =
     weeklyDataEntry z workoutTemplates trainingSessions now i (getWeekDates z today ! i)"
  using assms by (simp add: loadWeeklyWorkouts_entries length_getWeekDates nth_enumerate_eq)

section \<open>The example inputs evaluated\<close>

lemma example_calendar_match:
  "find (\<lambda>s. scheduled_date s = Some (toISODate 1675245600000)) [exampleSession st]
     = Some (exampleSession st)"
proof -
  have "toISODate 1675245600000 = \<lparr>iso_year = 2023, iso_month = 2, iso_day = 1\<rparr>"
    by code_simp
  then show ?thesis by (simp add: exampleSession_def)
qed

lemma example_dashboard_match:
  "find (\<lambda>s. case scheduled_date s of None \<Rightarrow> False
           | Some sd \<Rightarrow> toISODate (parseDateOnly sd) = toISODate 1675245600000)
     [exampleSession st] = Some (exampleSession st)"
proof -
  have "toISODate 1675245600000 = \<lparr>iso_year = 2023, iso_month = 2, iso_day = 1\<rparr>"
    by code_simp
  moreover have "toISODate (parseDateOnly \<lparr>iso_year = 2023, iso_month = 2, iso_day = 1\<rparr>)
      = \<lparr>iso_year = 2023, iso_month = 2, iso_day = 1\<rparr>"
    by code_simp
  ultimately show ?thesis by (simp add: exampleSession_def)
qed

lemma example_week_date: "getWeekDates (fixedZone 0) 1675245600000 ! 2 = 1675245600000"
  by code_simp

lemma example_week: "getWeekDates (fixedZone 0) 1675245600000 = exampleWeek"
  unfolding exampleWeek_def by code_simp

lemma example_week_local_dates:
  "map (localDate (fixedZone 0)) exampleWeek =
     [\<lparr>iso_year = 2023, iso_month = 1, iso_day = 30\<rparr>,
      \<lparr>iso_year = 2023, iso_month = 1, iso_day = 31\<rparr>,
      \<lparr>iso_year = 2023, iso_month = 2, iso_day = 1\<rparr>,
      \<lparr>iso_year = 2023, iso_month = 2, iso_day = 2\<rparr>,
      \<lparr>iso_year = 2023, iso_month = 2, iso_day = 3\<rparr>,
      \<lparr>iso_year = 2023, iso_month = 2, iso_day = 4\<rparr>,
      \<lparr>iso_year = 2023, iso_month = 2, iso_day = 5\<rparr>]"
  unfolding exampleWeek_def by code_simp

lemma templated_calendar_match:
  "find (\<lambda>s. scheduled_date s = Some (toISODate 1675245600000)) [templatedSession]
     = Some templatedSession"
proof -
  have "toISODate 1675245600000 = \<lparr>iso_year = 2023, iso_month = 2, iso_day = 1\<rparr>"
    by code_simp
  then show ?thesis by (simp add: templatedSession_def)
qed

lemma templated_dashboard_match:
  "find (\<lambda>s. case scheduled_date s of None \<Rightarrow> False
           | Some sd \<Rightarrow> toISODate (parseDateOnly sd) = toISODate 1675245600000)
     [templatedSession] = Some templatedSession"
proof -
  have "toISODate 1675245600000 = \<lparr>iso_year = 2023, iso_month = 2, iso_day = 1\<rparr>"
    by code_simp
  moreover have "toISODate (parseDateOnly \<lparr>iso_year = 2023, iso_month = 2, iso_day = 1\<rparr>)
      = \<lparr>iso_year = 2023, iso_month = 2, iso_day = 1\<rparr>"
    by code_simp
  ultimately show ?thesis by (simp add: templatedSession_def)
qed

lemma example_pst_week: "getWeekDates (fixedZone (- 28800000)) 1705366800000 =
     [1705366800000, 1705453200000, 1705539600000, 1705626000000,
      1705712400000, 1705798800000, 1705885200000]"
  by code_simp

lemma example_pst_utc_dates:
  "toISODate 1705366800000 = \<lparr>iso_year = 2024, iso_month = 1, iso_day = 16\<rparr>
   \<and> toISODate 1705453200000 = \<lparr>iso_year = 2024, iso_month = 1, iso_day = 17\<rparr>
   \<and> toISODate 1705539600000 = \<lparr>iso_year = 2024, iso_month = 1, iso_day = 18\<rparr>
   \<and> toISODate 1705626000000 = \<lparr>iso_year = 2024, iso_month = 1, iso_day = 19\<rparr>
   \<and> toISODate 1705712400000 = \<lparr>iso_year = 2024, iso_month = 1, iso_day = 20\<rparr>
   \<and> toISODate 1705798800000 = \<lparr>iso_year = 2024, iso_month = 1, iso_day = 21\<rparr>
   \<and> toISODate 1705885200000 = \<lparr>iso_year = 2024, iso_month = 1, iso_day = 22\<rparr>"
  by code_simp

lemma example_pst_local_dates:
  "map (localDate (fixedZone (- 28800000)))
     [1705366800000, 1705453200000, 1705539600000, 1705626000000,
      1705712400000, 1705798800000, 1705885200000] =
     [\<lparr>iso_year = 2024, iso_month = 1, iso_day = 15\<rparr>,
      \<lparr>iso_year = 2024, iso_month = 1, iso_day = 16\<rparr>,
      \<lparr>iso_year = 2024, iso_month = 1, iso_day = 17\<rparr>,
      \<lparr>iso_year = 2024, iso_month = 1, iso_day = 18\<rparr>,
      \<lparr>iso_year = 2024, iso_month = 1, iso_day = 19\<rparr>,
      \<lparr>iso_year = 2024, iso_month = 1, iso_day = 20\<rparr>,
      \<lparr>iso_year = 2024, iso_month = 1, iso_day = 21\<rparr>]"
  by code_simp



section \<open>C1: no-show and cancelled sessions\<close>

text \<open>
  Claim C1 says that the stored statuses \<^verbatim>\<open>no_show\<close> and \<^verbatim>\<open>cancelled\<close> are never
  conflated. On the coaching dashboard they are: its day entries carry no status, only the
  flags \<^verbatim>\<open>completed\<close> and \<^verbatim>\<open>missed\<close>, and one branch of \<^verbatim>\<open>loadWeeklyWorkouts\<close>
  sets \<^verbatim>\<open>missed\<close> for both. For the session of the example the entry of a cancelled
  session is flagged missed, and the whole week is the same as for a session that is a
  no-show.
\<close>

theorem dashboard_cancelled_as_missed_counterexample:
  "missed (loadWeeklyWorkouts (fixedZone 0) 1675245600000 [] [exampleSession S_cancelled] 0 ! 2)
   \<and> loadWeeklyWorkouts (fixedZone 0) 1675245600000 [] [exampleSession S_cancelled] 0
     = loadWeeklyWorkouts (fixedZone 0) 1675245600000 [] [exampleSession S_no_show] 0"
  by code_simp

text \<open>
  Claim C1, as the code has it. In the training calendar, for every date matched by a
  session, the day status is \<^verbatim>\<open>missed\<close> when the session's stored status is
  \<^verbatim>\<open>no_show\<close> and \<^verbatim>\<open>cancelled\<close> when it is \<^verbatim>\<open>cancelled\<close>: the two are kept
  distinct. In the coaching dashboard, for every date matched by a session whose stored
  status is \<^verbatim>\<open>no_show\<close> or \<^verbatim>\<open>cancelled\<close>, the flag \<^verbatim>\<open>missed\<close> is set and the flag
  \<^verbatim>\<open>completed\<close> is not.
\<close>

theorem no_show_cancelled_derivation:
  assumes "find (\<lambda>s. scheduled_date s = Some (toISODate date)) calendarSessions = Some s"
    and "find (\<lambda>s. case scheduled_date s of None \<Rightarrow> False
                  | Some sd \<Rightarrow> toISODate (parseDateOnly sd) = toISODate date')
           dashboardSessions = Some s'"
  shows "(status_s s = S_no_show \<longrightarrow>
            status (workoutSessionData z calendarSessions now index date) = D_missed)
       \<and> (status_s s = S_cancelled \<longrightarrow>
            status (workoutSessionData z calendarSessions now index date) = D_cancelled)
       \<and> (status_s s' = S_no_show \<or> status_s s' = S_cancelled \<longrightarrow>
            missed (weeklyDataEntry z workoutTemplates dashboardSessions now' index' date')
            \<and> \<not> completed
                 (weeklyDataEntry z workoutTemplates dashboardSessions now' index' date'))"
  unfolding workoutSessionData_matched [OF assms(1)] weeklyDataEntry_matched [OF assms(2)]
  by auto

theorem no_show_cancelled_derivation_witness:
  "find (\<lambda>s. scheduled_date s = Some (toISODate 1675245600000)) [exampleSession S_cancelled]
     = Some (exampleSession S_cancelled)
   \<and> find (\<lambda>s. case scheduled_date s of None \<Rightarrow> False
              | Some sd \<Rightarrow> toISODate (parseDateOnly sd) = toISODate 1675245600000)
       [exampleSession S_no_show] = Some (exampleSession S_no_show)
   \<and> status (workoutSessionData (fixedZone 0) [exampleSession S_cancelled] 0 2 1675245600000) = D_cancelled
   \<and> status (workoutSessionData (fixedZone 0) [exampleSession S_no_show] 0 2 1675245600000) = D_missed
   \<and> missed (weeklyDataEntry (fixedZone 0) [] [exampleSession S_no_show] 0 2 1675245600000)
   \<and> missed (weeklyDataEntry (fixedZone 0) [] [exampleSession S_cancelled] 0 2 1675245600000)
   \<and> \<not> completed (weeklyDataEntry (fixedZone 0) [] [exampleSession S_cancelled] 0 2 1675245600000)"
  using no_show_cancelled_derivation
    [OF example_calendar_match [of S_cancelled] example_dashboard_match [of S_no_show],
     where z = "fixedZone 0" and now = 0 and index = 2 and workoutTemplates = "[]" and now' = 0
       and index' = 2]
    no_show_cancelled_derivation
    [OF example_calendar_match [of S_no_show] example_dashboard_match [of S_cancelled],
     where z = "fixedZone 0" and now = 0 and index = 2 and workoutTemplates = "[]" and now' = 0
       and index' = 2]
    example_calendar_match [of S_cancelled] example_dashboard_match [of S_no_show]
  by (simp add: exampleSession_def)

section \<open>C2: scheduled sessions in the past\<close>

text \<open>
  Claim C2: for a matched session with stored status \<^verbatim>\<open>scheduled\<close>, the day is missed
  when the session's date and time (00:00:00 when the time is absent) are strictly before
  now, and stays scheduled otherwise. What the two screens do, for all inputs. In the
  training calendar the matched session's date is the date of the entry, and the day
  status is missed exactly when that date with the session's time (midnight when absent),
  read as local time, is strictly before now; otherwise it is scheduled (also when the time
  is out of range, which makes the \<^verbatim>\<open>Date\<close> invalid). The coaching dashboard never reads the
  scheduled time: its entry is flagged missed exactly when midnight UTC of the date is
  strictly before now, whatever the session's time.
\<close>

theorem scheduled_session_derivation:
  assumes "find (\<lambda>s. scheduled_date s = Some (toISODate date)) calendarSessions = Some s"
    and "status_s s = S_scheduled"
    and "find (\<lambda>s. case scheduled_date s of None \<Rightarrow> False
                  | Some sd \<Rightarrow> toISODate (parseDateOnly sd) = toISODate date')
           dashboardSessions = Some s'"
    and "status_s s' = S_scheduled"
  shows "scheduled_date s = Some (toISODate date)
       \<and> status (workoutSessionData z calendarSessions now index date) =
           (if date_before
                 (parseLocalDateTime z (toISODate date)
                    (case scheduled_time s of None \<Rightarrow> midnight | Some c \<Rightarrow> c)) now
            then D_missed else D_scheduled)
       \<and> missed (weeklyDataEntry z workoutTemplates dashboardSessions now' index' date')
           = (Day date' * msPerDay < now')"
  using calendar_scheduled_status [OF assms(1) assms(2)] assms(4)
  unfolding weeklyDataEntry_matched [OF assms(3)] parseDateOnly_toISODate
  by simp

text \<open>
  Both screens at 2023-02-01T10:00:00Z, for a session scheduled that day at 18:00:00,
  eight hours ahead: the calendar's entry is scheduled, the dashboard's entry is flagged
  missed.
\<close>

theorem scheduled_session_derivation_witness:
  "find (\<lambda>s. scheduled_date s = Some (toISODate 1675245600000)) [exampleSession S_scheduled]
     = Some (exampleSession S_scheduled)
   \<and> find (\<lambda>s. case scheduled_date s of None \<Rightarrow> False
              | Some sd \<Rightarrow> toISODate (parseDateOnly sd) = toISODate 1675245600000)
       [exampleSession S_scheduled] = Some (exampleSession S_scheduled)
   \<and> status_s (exampleSession S_scheduled) = S_scheduled
   \<and> parseLocalDateTime (fixedZone 0) (toISODate 1675245600000) \<lparr>hours = 18, minutes = 0, seconds = 0\<rparr>
       = Some 1675274400000
   \<and> \<not> (1675274400000 < (1675245600000 :: int))
   \<and> status (workoutSessionData (fixedZone 0) [exampleSession S_scheduled] 1675245600000 2 1675245600000)
       = D_scheduled
   \<and> missed (weeklyDataEntry (fixedZone 0) [] [exampleSession S_scheduled] 1675245600000 2 1675245600000)"
proof -
  have st: "status_s (exampleSession S_scheduled) = S_scheduled"
    by (simp add: exampleSession_def)
  have p: "parseLocalDateTime (fixedZone 0) (toISODate 1675245600000)
       \<lparr>hours = 18, minutes = 0, seconds = 0\<rparr> = Some 1675274400000"
    by code_simp
  note t = scheduled_session_derivation
      [OF example_calendar_match [of S_scheduled] st
          example_dashboard_match [of S_scheduled] st,
       where z = "fixedZone 0" and workoutTemplates = "[]" and now = 1675245600000 and index = 2
         and now' = 1675245600000 and index' = 2]
  have c: "status (workoutSessionData (fixedZone 0) [exampleSession S_scheduled] 1675245600000 2
             1675245600000) = D_scheduled"
    using t [THEN conjunct2, THEN conjunct1] p
    by (simp add: exampleSession_def date_before_def)
  have m: "missed (weeklyDataEntry (fixedZone 0) [] [exampleSession S_scheduled] 1675245600000 2
             1675245600000)"
    using t [THEN conjunct2, THEN conjunct2]
    by (simp add: Day_def msPerDay_def)
  show ?thesis
    using example_calendar_match [of S_scheduled] example_dashboard_match [of S_scheduled]
      st p c m
    by simp
qed

section \<open>C3: the weekly statistics\<close>

text \<open>
  Claim C3. For every list of day entries (so for every week of 7), the statistics
  \<^verbatim>\<open>calculateWeeklyStats\<close> computes are the specification's: \<^verbatim>\<open>totalWorkouts\<close> counts
  the entries with a template or a status other than rest, \<^verbatim>\<open>completedWorkouts\<close> counts
  the entries with status completed, \<^verbatim>\<open>totalDuration\<close> adds the durations (0 when
  absent) of the completed entries, and \<^verbatim>\<open>completionRate\<close> is 0 when
  \<^verbatim>\<open>totalWorkouts\<close> is 0 and \<open>100 * completedWorkouts / totalWorkouts\<close> otherwise, so
  nothing is ever divided by zero. The rate is an exact real number here: the rounding of
  floating-point division is outside the model.
\<close>

theorem calculateWeeklyStats_reference:
  "calculateWeeklyStats workouts =
     \<lparr>totalWorkouts = spec_totalWorkouts workouts,
      completedWorkouts = spec_completedWorkouts workouts,
      totalDuration = spec_totalDuration workouts,
      completionRate = spec_completionRate workouts\<rparr>"
  unfolding calculateWeeklyStats_def Let_def spec_totalWorkouts_def spec_completedWorkouts_def
    spec_totalDuration_def spec_completionRate_def
  by (simp add: length_filter_sum foldl_add_sum sum_list_filter)

theorem calculateWeeklyStats_reference_witness:
  "calculateWeeklyStats
     [restDay 0 1, restDay 1 2, completedDay, restDay 3 4, restDay 4 5, restDay 5 6, restDay 6 7]
   = \<lparr>totalWorkouts = 1, completedWorkouts = 1, totalDuration = 45, completionRate = 100\<rparr>"
  using calculateWeeklyStats_reference
    [of "[restDay 0 1, restDay 1 2, completedDay, restDay 3 4, restDay 4 5, restDay 5 6,
          restDay 6 7]"]
  by (simp add: spec_totalWorkouts_def spec_completedWorkouts_def spec_totalDuration_def
        spec_completionRate_def restDay_def completedDay_def)

section \<open>C4: a cancelled session in the statistics\<close>

text \<open>
  Claim C4 says that the day of a cancelled session does not count toward
  \<^verbatim>\<open>totalWorkouts\<close>. It does: \<^verbatim>\<open>calculateWeeklyStats\<close> counts every entry whose status
  is not rest, and the status of that day is cancelled. For a week whose only session is
  cancelled and has no template, \<^verbatim>\<open>totalWorkouts\<close> is 1; with no session it is 0.
\<close>

theorem cancelled_day_counts_counterexample:
  "status (fst (loadWeeklySchedule (fixedZone 0) 1675245600000 [exampleSession S_cancelled] 0) ! 2)
     = D_cancelled
   \<and> template (fst (loadWeeklySchedule (fixedZone 0) 1675245600000 [exampleSession S_cancelled] 0) ! 2)
     = None
   \<and> totalWorkouts (snd (loadWeeklySchedule (fixedZone 0) 1675245600000 [exampleSession S_cancelled] 0)) = 1
   \<and> totalWorkouts (snd (loadWeeklySchedule (fixedZone 0) 1675245600000 [] 0)) = 0"
  by code_simp

text \<open>
  Claim C4, as the code has it. For every date matched by a session with stored status
  \<^verbatim>\<open>cancelled\<close>, the day entry has status cancelled, and that day counts toward
  \<^verbatim>\<open>totalWorkouts\<close>, with or without a template: a week with the entry has one workout
  more than the same week without it.
\<close>

theorem cancelled_day_counts:
  assumes "find (\<lambda>s. scheduled_date s = Some (toISODate date)) trainingSessions = Some s"
    and "status_s s = S_cancelled"
  shows "status (workoutSessionData z trainingSessions now index date) = D_cancelled
       \<and> totalWorkouts (calculateWeeklyStats
            (before @ workoutSessionData z trainingSessions now index date # after))
         = totalWorkouts (calculateWeeklyStats (before @ after)) + 1"
  unfolding totalWorkouts_insert workoutSessionData_matched [OF assms(1)]
  using assms(2) by simp

theorem cancelled_day_counts_witness:
  "find (\<lambda>s. scheduled_date s = Some (toISODate 1675245600000)) [exampleSession S_cancelled]
     = Some (exampleSession S_cancelled)
   \<and> status_s (exampleSession S_cancelled) = S_cancelled
   \<and> status (workoutSessionData (fixedZone 0) [exampleSession S_cancelled] 0 2 1675245600000) = D_cancelled
   \<and> totalWorkouts (calculateWeeklyStats
        ([] @ workoutSessionData (fixedZone 0) [exampleSession S_cancelled] 0 2 1675245600000 # []))
      = totalWorkouts (calculateWeeklyStats ([] @ [])) + 1"
proof -
  have st: "status_s (exampleSession S_cancelled) = S_cancelled"
    by (simp add: exampleSession_def)
  show ?thesis
    using cancelled_day_counts [OF example_calendar_match [of S_cancelled] st,
        where z = "fixedZone 0" and now = 0 and index = 2 and before = "[]" and after = "[]"]
      example_calendar_match [of S_cancelled] st
    by blast
qed

section \<open>C5: the week window\<close>



section \<open>C6: a week without sessions\<close>

text \<open>
  Claim C6. For every week, of 7 dates or of any other length, when there is no session
  record every derived day entry has status rest and no template, no session identifier,
  no scheduled time, no duration and no notes, and the statistics have
  \<^verbatim>\<open>totalWorkouts\<close> 0 and \<^verbatim>\<open>completionRate\<close> 0.
\<close>

theorem empty_sessions_rest_week:
  "let weeklySchedule = weeklyScheduleOf z week [] now;
       stats = calculateWeeklyStats weeklySchedule
   in length weeklySchedule = length week
    \<and> (\<forall>w \<in> set weeklySchedule.
          status w = D_rest \<and> template w = None \<and> sessionId w = None
          \<and> scheduledTime w = None \<and> duration_minutes w = None \<and> notes_w w = None)
    \<and> totalWorkouts stats = 0
    \<and> completionRate stats = 0"
proof -
  have all: "\<forall>w \<in> set (weeklyScheduleOf z week [] now).
          status w = D_rest \<and> template w = None \<and> sessionId w = None
          \<and> scheduledTime w = None \<and> duration_minutes w = None \<and> notes_w w = None"
    unfolding weeklyScheduleOf_empty by (auto simp add: restDay_def)
  then have "\<forall>w \<in> set (weeklyScheduleOf z week [] now). status w = D_rest \<and> template w = None"
    by simp
  from stats_all_rest [OF this] all show ?thesis
    by (simp add: Let_def length_weeklyScheduleOf)
qed

theorem empty_sessions_rest_week_witness:
  "map status (weeklyScheduleOf (fixedZone 0) exampleWeek [] 0) = replicate 7 D_rest
   \<and> map sessionId (weeklyScheduleOf (fixedZone 0) exampleWeek [] 0) = replicate 7 None
   \<and> totalWorkouts (calculateWeeklyStats (weeklyScheduleOf (fixedZone 0) exampleWeek [] 0)) = 0
   \<and> completionRate (calculateWeeklyStats (weeklyScheduleOf (fixedZone 0) exampleWeek [] 0)) = 0"
proof -
  note t = empty_sessions_rest_week [of "fixedZone 0" exampleWeek 0, unfolded Let_def]
  have len: "length (weeklyScheduleOf (fixedZone 0) exampleWeek [] 0) = 7"
    using t [THEN conjunct1] by (simp add: exampleWeek_def)
  have "\<forall>w \<in> set (weeklyScheduleOf (fixedZone 0) exampleWeek [] 0). status w = D_rest"
    using t [THEN conjunct2, THEN conjunct1] by simp
  from map_const_replicate [OF this]
  have 1: "map status (weeklyScheduleOf (fixedZone 0) exampleWeek [] 0) = replicate 7 D_rest"
    by (simp only: len)
  have "\<forall>w \<in> set (weeklyScheduleOf (fixedZone 0) exampleWeek [] 0). sessionId w = None"
    using t [THEN conjunct2, THEN conjunct1] by simp
  from map_const_replicate [OF this]
  have 2: "map sessionId (weeklyScheduleOf (fixedZone 0) exampleWeek [] 0) = replicate 7 None"
    by (simp only: len)
  show ?thesis
    by (intro conjI 1 2 t [THEN conjunct2, THEN conjunct2, THEN conjunct1]
          t [THEN conjunct2, THEN conjunct2, THEN conjunct2])
qed

section \<open>C7: the fields copied from the matched session\<close>

text \<open>
  Claim C7 says that the entry of a matched date always carries a template reference, a
  synthesized one when the session has no template. The training calendar synthesizes
  none: for the session of the example, which has no template, its entry has the session's
  identifier and no template. The fallback exists on the coaching dashboard only.
\<close>

theorem calendar_no_fallback_template_counterexample:
  "sessionId (fst (loadWeeklySchedule (fixedZone 0) 1675245600000 [exampleSession S_scheduled] 0) ! 2)
     = Some ''s1''
   \<and> template (fst (loadWeeklySchedule (fixedZone 0) 1675245600000 [exampleSession S_scheduled] 0) ! 2)
     = None
   \<and> template (loadWeeklyWorkouts (fixedZone 0) 1675245600000 [] [exampleSession S_scheduled] 0 ! 2)
     = Some \<lparr>id_t = ''s1'', name_t = ''Custom Session''\<rparr>"
  by code_simp

text \<open>
  Claim C7, as the code has it. In the training calendar, the entry of a date matched by a
  session carries the session's own template when it has one and no template otherwise,
  and copies the session's identifier, scheduled time, duration and notes. In the coaching
  dashboard, the entry of a matched date always carries a template reference: for a
  session with a template identifier, the template of that identifier in the loaded
  templates, or the identifier with the name \<^verbatim>\<open>Workout\<close> when none is loaded; for a
  session without one, a reference made of the session's identifier and its
  \<^verbatim>\<open>session_type\<close>, else its \<^verbatim>\<open>type\<close>, else the text \<^verbatim>\<open>Custom Session\<close>. The
  dashboard's entry copies the session's identifier and scheduled time; it has no fields
  for duration and notes.
\<close>

theorem matched_entry_fields:
  assumes "find (\<lambda>s. scheduled_date s = Some (toISODate date)) calendarSessions = Some s"
    and "find (\<lambda>s. case scheduled_date s of None \<Rightarrow> False
                  | Some sd \<Rightarrow> toISODate (parseDateOnly sd) = toISODate date')
           dashboardSessions = Some s'"
  shows "(let entry = workoutSessionData z calendarSessions now index date
          in template entry = template_s s
           \<and> sessionId entry = Some (id_s s)
           \<and> scheduledTime entry = scheduled_time s
           \<and> duration_minutes entry = duration_minutes_s s
           \<and> notes_w entry = notes_s s)
       \<and> (let entry' = weeklyDataEntry z workoutTemplates dashboardSessions now' index' date';
               fallback = \<lparr>id_t = id_s s',
                           name_t = or_default (session_type s')
                                      (or_default (type_s s') ''Custom Session'')\<rparr>
           in template entry' =
                Some (case template_id s' of
                        None \<Rightarrow> fallback
                      | Some tid \<Rightarrow>
                          if tid = [] then fallback
                          else (case find (\<lambda>t. id_t t = tid) workoutTemplates of
                                  Some templateData \<Rightarrow> templateData
                                | None \<Rightarrow> \<lparr>id_t = tid, name_t = ''Workout''\<rparr>))
            \<and> sessionId entry' = Some (id_s s')
            \<and> scheduledTime entry' = scheduled_time s')"
  unfolding Let_def workoutSessionData_matched [OF assms(1)] weeklyDataEntry_matched [OF assms(2)]
  by simp

theorem matched_entry_fields_witness:
  "find (\<lambda>s. scheduled_date s = Some (toISODate 1675245600000)) [exampleSession S_scheduled]
     = Some (exampleSession S_scheduled)
   \<and> find (\<lambda>s. case scheduled_date s of None \<Rightarrow> False
              | Some sd \<Rightarrow> toISODate (parseDateOnly sd) = toISODate 1675245600000)
       [templatedSession] = Some templatedSession
   \<and> template (workoutSessionData (fixedZone 0) [exampleSession S_scheduled] 0 2 1675245600000) = None
   \<and> sessionId (workoutSessionData (fixedZone 0) [exampleSession S_scheduled] 0 2 1675245600000)
     = Some ''s1''
   \<and> scheduledTime (workoutSessionData (fixedZone 0) [exampleSession S_scheduled] 0 2 1675245600000)
     = Some \<lparr>hours = 18, minutes = 0, seconds = 0\<rparr>
   \<and> template (workoutSessionData (fixedZone 0) [templatedSession] 0 2 1675245600000)
     = Some \<lparr>id_t = ''t1'', name_t = ''Leg Day''\<rparr>
   \<and> duration_minutes (workoutSessionData (fixedZone 0) [templatedSession] 0 2 1675245600000) = Some 45
   \<and> notes_w (workoutSessionData (fixedZone 0) [templatedSession] 0 2 1675245600000)
     = Some ''felt strong''
   \<and> template (weeklyDataEntry (fixedZone 0) [] [exampleSession S_scheduled] 0 2 1675245600000)
     = Some \<lparr>id_t = ''s1'', name_t = ''Custom Session''\<rparr>
   \<and> template (weeklyDataEntry (fixedZone 0) [] [templatedSession] 0 2 1675245600000)
     = Some \<lparr>id_t = ''t1'', name_t = ''Workout''\<rparr>
   \<and> template (weeklyDataEntry (fixedZone 0) [\<lparr>id_t = ''t1'', name_t = ''Leg Day''\<rparr>] [templatedSession]
        0 2 1675245600000)
     = Some \<lparr>id_t = ''t1'', name_t = ''Leg Day''\<rparr>"
  using matched_entry_fields
    [OF example_calendar_match [of S_scheduled] example_dashboard_match [of S_scheduled],
     where z = "fixedZone 0" and now = 0 and index = 2 and workoutTemplates = "[]" and now' = 0
       and index' = 2]
    matched_entry_fields
    [OF templated_calendar_match templated_dashboard_match,
     where z = "fixedZone 0" and now = 0 and index = 2 and workoutTemplates = "[]" and now' = 0
       and index' = 2]
    matched_entry_fields
    [OF templated_calendar_match templated_dashboard_match,
     where z = "fixedZone 0" and now = 0 and index = 2
       and workoutTemplates = "[\<lparr>id_t = ''t1'', name_t = ''Leg Day''\<rparr>]" and now' = 0
       and index' = 2]
    example_calendar_match [of S_scheduled] templated_dashboard_match
  by (simp add: Let_def exampleSession_def templatedSession_def or_default_def)

section \<open>C8: failures of the derivation\<close>




section \<open>C9: which session a day entry shows\<close>

text \<open>
  Claim C9: 7 entries in the order of the week, and an entry has a session identifier
  exactly when a session's scheduled date is the entry's date, the first such session in
  input order being used. What the training calendar does, for all inputs: it returns 7
  entries, lettered Monday to Sunday, in the order of the week; the day number of an entry
  is the day of the month of its date in local time (\<^verbatim>\<open>getDate\<close>); but its session
  identifier is that of the first session whose scheduled date is the date in UTC
  (\<^verbatim>\<open>toISOString\<close>). In a zone of fixed offset, when the reference has the same date
  in local time and in UTC, as it always has on a device on UTC, that is the first session
  scheduled on the entry's own date, as the claim says. Away from UTC the two dates differ
  for part of every day, and the entry then shows the session of the day before or after
  its own.
\<close>

theorem entries_matched_on_utc_date:
  "let entries = fst (loadWeeklySchedule z currentWeekStart trainingSessions now);
       week = getWeekDates z currentWeekStart
   in length entries = 7
    \<and> map dayName entries = map Some dayNames
    \<and> map dayNumber entries = map (\<lambda>date. iso_day (localDate z date)) week
    \<and> map sessionId entries =
        map (\<lambda>date. map_option id_s
               (find (\<lambda>s. scheduled_date s = Some (toISODate date)) trainingSessions)) week
    \<and> (z = fixedZone tz \<and> Day (LocalTime z currentWeekStart) = Day currentWeekStart \<longrightarrow>
        map sessionId entries =
          map (\<lambda>date. map_option id_s
                 (find (\<lambda>s. scheduled_date s = Some (localDate z date)) trainingSessions))
            week)"
proof -
  have n: "getDate z = (\<lambda>date. iso_day (localDate z date))"
    by (simp add: getDate_def localDate_def toISODate_def fun_eq_iff)
  have l: "map (\<lambda>date. map_option id_s
                 (find (\<lambda>s. scheduled_date s = Some (toISODate date)) trainingSessions))
            (getWeekDates z currentWeekStart)
         = map (\<lambda>date. map_option id_s
                 (find (\<lambda>s. scheduled_date s = Some (localDate z date)) trainingSessions))
            (getWeekDates z currentWeekStart)"
    if z: "z = fixedZone tz" and "Day (LocalTime z currentWeekStart) = Day currentWeekStart"
  proof -
    have "map (\<lambda>ds. map_option id_s (find (\<lambda>s. scheduled_date s = Some ds) trainingSessions))
            (map toISODate (getWeekDates z currentWeekStart))
        = map (\<lambda>ds. map_option id_s (find (\<lambda>s. scheduled_date s = Some ds) trainingSessions))
            (map (localDate z) (getWeekDates z currentWeekStart))"
      using week_local_dates_utc [of tz currentWeekStart] that by simp
    then show ?thesis by (simp add: comp_def)
  qed
  have len: "length (fst (loadWeeklySchedule z currentWeekStart trainingSessions now)) = 7"
    by (rule weeklySchedule_shape(1))
  have names: "map dayName (fst (loadWeeklySchedule z currentWeekStart trainingSessions now))
      = map Some dayNames"
    by (rule weeklySchedule_shape(3))
  have numbers: "map dayNumber (fst (loadWeeklySchedule z currentWeekStart trainingSessions now))
      = map (\<lambda>date. iso_day (localDate z date)) (getWeekDates z currentWeekStart)"
    unfolding weeklySchedule_shape(2) n ..
  have ids: "map sessionId (fst (loadWeeklySchedule z currentWeekStart trainingSessions now))
      = map (\<lambda>date. map_option id_s
               (find (\<lambda>s. scheduled_date s = Some (toISODate date)) trainingSessions))
          (getWeekDates z currentWeekStart)"
    by (rule weeklySchedule_shape(4))
  have own: "z = fixedZone tz \<and> Day (LocalTime z currentWeekStart) = Day currentWeekStart \<longrightarrow>
      map sessionId (fst (loadWeeklySchedule z currentWeekStart trainingSessions now))
      = map (\<lambda>date. map_option id_s
               (find (\<lambda>s. scheduled_date s = Some (localDate z date)) trainingSessions))
          (getWeekDates z currentWeekStart)"
  proof (intro impI, elim conjE)
    assume "z = fixedZone tz" "Day (LocalTime z currentWeekStart) = Day currentWeekStart"
    then show "map sessionId (fst (loadWeeklySchedule z currentWeekStart trainingSessions now))
      = map (\<lambda>date. map_option id_s
               (find (\<lambda>s. scheduled_date s = Some (localDate z date)) trainingSessions))
          (getWeekDates z currentWeekStart)"
      unfolding ids by (rule l)
  qed
  show ?thesis
    unfolding Let_def
    by (intro conjI len names numbers ids own)
qed

text \<open>
  A device 8 hours behind UTC, the screen opened on Monday 2024-01-15 at 17:00 local time
  (2024-01-16T01:00:00Z). The local dates of the week are the 15th to the 21st and so are
  the day numbers; the session scheduled on Tuesday the 16th is shown by Monday's entry,
  and a session scheduled on Monday the 15th is shown by no entry. On a device on UTC, the
  session of Wednesday 2023-02-01 is shown by Wednesday's entry.
\<close>

theorem entries_matched_on_utc_date_witness:
  "map (localDate (fixedZone (- 28800000))) (getWeekDates (fixedZone (- 28800000)) 1705366800000) =
     [\<lparr>iso_year = 2024, iso_month = 1, iso_day = 15\<rparr>,
      \<lparr>iso_year = 2024, iso_month = 1, iso_day = 16\<rparr>,
      \<lparr>iso_year = 2024, iso_month = 1, iso_day = 17\<rparr>,
      \<lparr>iso_year = 2024, iso_month = 1, iso_day = 18\<rparr>,
      \<lparr>iso_year = 2024, iso_month = 1, iso_day = 19\<rparr>,
      \<lparr>iso_year = 2024, iso_month = 1, iso_day = 20\<rparr>,
      \<lparr>iso_year = 2024, iso_month = 1, iso_day = 21\<rparr>]
   \<and> map dayNumber (fst (loadWeeklySchedule (fixedZone (- 28800000)) 1705366800000
         [sessionOn \<lparr>iso_year = 2024, iso_month = 1, iso_day = 16\<rparr>] 0))
     = [15, 16, 17, 18, 19, 20, 21]
   \<and> map sessionId (fst (loadWeeklySchedule (fixedZone (- 28800000)) 1705366800000
         [sessionOn \<lparr>iso_year = 2024, iso_month = 1, iso_day = 16\<rparr>] 0))
     = [Some ''s1'', None, None, None, None, None, None]
   \<and> map sessionId (fst (loadWeeklySchedule (fixedZone (- 28800000)) 1705366800000
         [sessionOn \<lparr>iso_year = 2024, iso_month = 1, iso_day = 15\<rparr>] 0))
     = [None, None, None, None, None, None, None]
   \<and> Day (LocalTime (fixedZone 0) 1675245600000) = Day 1675245600000
   \<and> map sessionId (fst (loadWeeklySchedule (fixedZone 0) 1675245600000
         [sessionOn \<lparr>iso_year = 2023, iso_month = 2, iso_day = 1\<rparr>] 0))
     = [None, None, Some ''s1'', None, None, None, None]"
proof -
  note t16 = entries_matched_on_utc_date
    [where z = "fixedZone (- 28800000)" and currentWeekStart = 1705366800000
       and trainingSessions = "[sessionOn \<lparr>iso_year = 2024, iso_month = 1, iso_day = 16\<rparr>]"
       and now = 0 and tz = "- 28800000",
     unfolded Let_def example_pst_week]
  note t15 = entries_matched_on_utc_date
    [where z = "fixedZone (- 28800000)" and currentWeekStart = 1705366800000
       and trainingSessions = "[sessionOn \<lparr>iso_year = 2024, iso_month = 1, iso_day = 15\<rparr>]"
       and now = 0 and tz = "- 28800000",
     unfolded Let_def example_pst_week]
  note t0 = entries_matched_on_utc_date
    [where z = "fixedZone 0" and currentWeekStart = 1675245600000
       and trainingSessions = "[sessionOn \<lparr>iso_year = 2023, iso_month = 2, iso_day = 1\<rparr>]"
       and now = 0 and tz = 0,
     unfolded Let_def example_week]
  have dates: "map (localDate (fixedZone (- 28800000))) (getWeekDates (fixedZone (- 28800000)) 1705366800000) =
     [\<lparr>iso_year = 2024, iso_month = 1, iso_day = 15\<rparr>,
      \<lparr>iso_year = 2024, iso_month = 1, iso_day = 16\<rparr>,
      \<lparr>iso_year = 2024, iso_month = 1, iso_day = 17\<rparr>,
      \<lparr>iso_year = 2024, iso_month = 1, iso_day = 18\<rparr>,
      \<lparr>iso_year = 2024, iso_month = 1, iso_day = 19\<rparr>,
      \<lparr>iso_year = 2024, iso_month = 1, iso_day = 20\<rparr>,
      \<lparr>iso_year = 2024, iso_month = 1, iso_day = 21\<rparr>]"
    unfolding example_pst_week by (rule example_pst_local_dates)
  have n: "map dayNumber (fst (loadWeeklySchedule (fixedZone (- 28800000)) 1705366800000
         [sessionOn \<lparr>iso_year = 2024, iso_month = 1, iso_day = 16\<rparr>] 0))
     = [15, 16, 17, 18, 19, 20, 21]"
    using t16 [THEN conjunct2, THEN conjunct2, THEN conjunct1] example_pst_local_dates
    by simp
  have s16: "map sessionId (fst (loadWeeklySchedule (fixedZone (- 28800000)) 1705366800000
         [sessionOn \<lparr>iso_year = 2024, iso_month = 1, iso_day = 16\<rparr>] 0))
     = [Some ''s1'', None, None, None, None, None, None]"
    using t16 [THEN conjunct2, THEN conjunct2, THEN conjunct2, THEN conjunct1]
      example_pst_utc_dates
    by (simp add: sessionOn_def)
  have s15: "map sessionId (fst (loadWeeklySchedule (fixedZone (- 28800000)) 1705366800000
         [sessionOn \<lparr>iso_year = 2024, iso_month = 1, iso_day = 15\<rparr>] 0))
     = [None, None, None, None, None, None, None]"
    using t15 [THEN conjunct2, THEN conjunct2, THEN conjunct2, THEN conjunct1]
      example_pst_utc_dates
    by (simp add: sessionOn_def)
  have h: "Day (LocalTime (fixedZone 0) 1675245600000) = Day 1675245600000"
    by (simp add: LocalTime_fixedZone)
  have "map sessionId (fst (loadWeeklySchedule (fixedZone 0) 1675245600000
         [sessionOn \<lparr>iso_year = 2023, iso_month = 2, iso_day = 1\<rparr>] 0))
     = map (\<lambda>date. map_option id_s
            (find (\<lambda>s. scheduled_date s = Some (localDate (fixedZone 0) date))
               [sessionOn \<lparr>iso_year = 2023, iso_month = 2, iso_day = 1\<rparr>])) exampleWeek"
    using t0 [THEN conjunct2, THEN conjunct2, THEN conjunct2, THEN conjunct2] h by blast
  also have "\<dots> = map (\<lambda>ds. map_option id_s
            (find (\<lambda>s. scheduled_date s = Some ds)
               [sessionOn \<lparr>iso_year = 2023, iso_month = 2, iso_day = 1\<rparr>]))
          (map (localDate (fixedZone 0)) exampleWeek)"
    by (simp add: comp_def)
  also have "\<dots> = [None, None, Some ''s1'', None, None, None, None]"
    unfolding example_week_local_dates by (simp add: sessionOn_def)
  finally have s0: "map sessionId (fst (loadWeeklySchedule (fixedZone 0) 1675245600000
         [sessionOn \<lparr>iso_year = 2023, iso_month = 2, iso_day = 1\<rparr>] 0))
     = [None, None, Some ''s1'', None, None, None, None]" .
  show ?thesis
    by (intro conjI dates n s16 s15 h s0)
qed

section \<open>C10: the flags of the coaching dashboard\<close>

text \<open>
  Claim C10. In the coaching dashboard, for each of the 7 day entries, the flags
  \<^verbatim>\<open>completed\<close> and \<^verbatim>\<open>missed\<close> are never both set, and \<^verbatim>\<open>completed\<close> is set
  exactly when a session matches the entry's date and the stored status of the matched
  session (the first match) is \<^verbatim>\<open>completed\<close>.
\<close>

theorem dashboard_completed_missed:
  "i < 7 \<Longrightarrow>
   (let date = getWeekDates z today ! i;
        session = find (\<lambda>s. case scheduled_date s of None \<Rightarrow> False
                         | Some sd \<Rightarrow> toISODate (parseDateOnly sd) = toISODate date)
                    trainingSessions;
        entry = loadWeeklyWorkouts z today workoutTemplates trainingSessions now ! i
    in \<not> (completed entry \<and> missed entry)
     \<and> completed entry = (case session of None \<Rightarrow> False | Some s \<Rightarrow> status_s s = S_completed))"
proof -
  assume i: "i < 7"
  define date where "date = getWeekDates z today ! i"
  define session where "session =
    find (\<lambda>s. case scheduled_date s of None \<Rightarrow> False
             | Some sd \<Rightarrow> toISODate (parseDateOnly sd) = toISODate date) trainingSessions"
  have e: "loadWeeklyWorkouts z today workoutTemplates trainingSessions now ! i =
      weeklyDataEntry z workoutTemplates trainingSessions now i date"
    unfolding date_def by (rule nth_loadWeeklyWorkouts [OF i])
  show ?thesis
  proof (cases session)
    case None
    then show ?thesis
      unfolding Let_def e date_def [symmetric] session_def [symmetric]
      using weeklyDataEntry_unmatched [of date trainingSessions] session_def
      by simp
  next
    case (Some s)
    then show ?thesis
      unfolding Let_def e date_def [symmetric] session_def [symmetric]
      using weeklyDataEntry_matched [of date trainingSessions s] session_def
      by simp
  qed
qed

theorem dashboard_completed_missed_witness:
  "(2::nat) < 7
   \<and> completed (loadWeeklyWorkouts (fixedZone 0) 1675245600000 [] [exampleSession S_completed] 0 ! 2)
   \<and> \<not> missed (loadWeeklyWorkouts (fixedZone 0) 1675245600000 [] [exampleSession S_completed] 0 ! 2)
   \<and> \<not> completed (loadWeeklyWorkouts (fixedZone 0) 1675245600000 [] [exampleSession S_no_show] 0 ! 2)
   \<and> \<not> completed (loadWeeklyWorkouts (fixedZone 0) 1675245600000 [] [] 0 ! 2)"
proof -
  have i: "(2::nat) < 7" by simp
  have none: "find (\<lambda>s. case scheduled_date s of None \<Rightarrow> False
           | Some sd \<Rightarrow> toISODate (parseDateOnly sd) = toISODate 1675245600000) [] = None"
    by simp
  show ?thesis
    using dashboard_completed_missed [OF i, of "fixedZone 0" 1675245600000 "[exampleSession S_completed]" "[]" 0]
      dashboard_completed_missed [OF i, of "fixedZone 0" 1675245600000 "[exampleSession S_no_show]" "[]" 0]
      dashboard_completed_missed [OF i, of "fixedZone 0" 1675245600000 "[]" "[]" 0]
    unfolding Let_def example_week_date example_dashboard_match none
    by (simp add: exampleSession_def)
qed

end
